theory Spec2Isabelle
  imports Complex_Main "HOL-Library.Monad_Syntax"
begin

section \<open>Restaurant records and the seed database\<close>

text \<open>
  A restaurant is a Python dict with the keys \<^verbatim>\<open>name\<close>, \<^verbatim>\<open>cuisine\<close>, \<^verbatim>\<open>location\<close>,
  \<^verbatim>\<open>rating\<close> and \<^verbatim>\<open>delivery_speed\<close>. The first four are read with \<^verbatim>\<open>r[...]\<close>, so they
  are always present; \<^verbatim>\<open>delivery_speed\<close> is read with \<^verbatim>\<open>r.get(...)\<close>, so it may be absent
  (\<open>None\<close>). Ratings are floats that are only ever compared, never computed with; a
  comparison of two finite floats is exact, so a rating is modelled by the real number
  it denotes. A Python string is a sequence of code points; the strings of the model
  are those whose code points are below 256 (ASCII and Latin-1), one \<open>char\<close> per code
  point. All the seed data is ASCII.
\<close>

record restaurant =
  name :: string
  cuisine :: string
  location :: string
  rating :: real
  delivery_speed :: "int option"

record RestaurantDatabase =
  restaurants :: "restaurant list"

text \<open>\<^verbatim>\<open>RestaurantDatabase.__init__\<close>: the eight seed records, in the order of the source.\<close>

definition RestaurantDatabase_init :: RestaurantDatabase where
  "RestaurantDatabase_init = \<lparr>restaurants = [
     \<lparr>name = ''Pizza Palace'', cuisine = ''Italian'', location = ''New York'',
      rating = 4.5, delivery_speed = Some 30\<rparr>,
     \<lparr>name = ''Sushi World'', cuisine = ''Japanese'', location = ''San Francisco'',
      rating = 4.7, delivery_speed = Some 40\<rparr>,
     \<lparr>name = ''Burger Shack'', cuisine = ''American'', location = ''Los Angeles'',
      rating = 4.2, delivery_speed = Some 25\<rparr>,
     \<lparr>name = ''Taco Stand'', cuisine = ''Mexican'', location = ''Chicago'',
      rating = 3.9, delivery_speed = Some 20\<rparr>,
     \<lparr>name = ''Vegan Delight'', cuisine = ''Vegan'', location = ''Austin'',
      rating = 4.8, delivery_speed = Some 35\<rparr>,
     \<lparr>name = ''Dim Sum House'', cuisine = ''Chinese'', location = ''Seattle'',
      rating = 4.6, delivery_speed = Some 50\<rparr>,
     \<lparr>name = ''Italian Bistro'', cuisine = ''Italian'', location = ''Downtown'',
      rating = 4.0, delivery_speed = Some 30\<rparr>,
     \<lparr>name = ''Sushi Express'', cuisine = ''Japanese'', location = ''Downtown'',
      rating = 4.2, delivery_speed = Some 30\<rparr>]\<rparr>"

definition get_restaurants :: "RestaurantDatabase \<Rightarrow> restaurant list" where
  "get_restaurants db = restaurants db"

section \<open>Python primitives used by the filters\<close>

text \<open>
  \<^verbatim>\<open>str.lower()\<close> on code points below 256 works one character at a time. The letters
  A to Z (codes 65 to 90) and the Latin-1 capital letters (codes 192 to 214 and 216 to
  222; 215 is the multiplication sign) move up by 32; every other code point stays, among them the
  micro sign 181, the sharp s 223 and the y with diaeresis 255, which are lower case
  already. The one rule of \<^verbatim>\<open>str.lower()\<close> that looks at neighbouring characters concerns
  the Greek capital sigma, which is not below 256.
\<close>

definition lower_char :: "char \<Rightarrow> char" where
  "lower_char c =
     (let n = (of_char c :: nat)
      in if (65 \<le> n \<and> n \<le> 90) \<or> (192 \<le> n \<and> n \<le> 214) \<or> (216 \<le> n \<and> n \<le> 222)
         then char_of (n + 32) else c)"

definition lower :: "string \<Rightarrow> string" where
  "lower s = map lower_char s"

text \<open>
  Truthiness, as tested by \<^verbatim>\<open>if cuisine_type:\<close> on an optional string and by
  \<^verbatim>\<open>r.get("delivery_speed") and ...\<close> on an optional integer: \<open>None\<close>, the empty string
  and zero are false.
\<close>

fun truthy_str :: "string option \<Rightarrow> bool" where
  "truthy_str None = False"
| "truthy_str (Some s) = (s \<noteq> [])"

fun truthy_int :: "int option \<Rightarrow> bool" where
  "truthy_int None = False"
| "truthy_int (Some n) = (n \<noteq> 0)"

text \<open>The conditions of the four list comprehensions.\<close>

definition cuisine_matches :: "string \<Rightarrow> restaurant \<Rightarrow> bool" where
  "cuisine_matches cuisine_type r = (lower (cuisine r) = lower cuisine_type)"

definition location_matches :: "string \<Rightarrow> restaurant \<Rightarrow> bool" where
  "location_matches location' r = (lower (location r) = lower location')"

definition rating_at_least :: "real \<Rightarrow> restaurant \<Rightarrow> bool" where
  "rating_at_least min_rating r = (rating r \<ge> min_rating)"

definition delivery_within :: "int \<Rightarrow> restaurant \<Rightarrow> bool" where
  "delivery_within delivery_speed' r =
     (truthy_int (delivery_speed r) \<and>
      (case delivery_speed r of None \<Rightarrow> False | Some d \<Rightarrow> d \<le> delivery_speed'))"

section \<open>\<^verbatim>\<open>RestaurantBrowsing\<close>: the searches as functions on values\<close>

definition search_by_cuisine :: "RestaurantDatabase \<Rightarrow> string \<Rightarrow> restaurant list" where
  "search_by_cuisine db cuisine_type =
     [restaurant \<leftarrow> get_restaurants db. cuisine_matches cuisine_type restaurant]"

definition search_by_location :: "RestaurantDatabase \<Rightarrow> string \<Rightarrow> restaurant list" where
  "search_by_location db location' =
     [restaurant \<leftarrow> get_restaurants db. location_matches location' restaurant]"

definition search_by_rating :: "RestaurantDatabase \<Rightarrow> real \<Rightarrow> restaurant list" where
  "search_by_rating db min_rating =
     [restaurant \<leftarrow> get_restaurants db. rating_at_least min_rating restaurant]"

text \<open>
  \<^verbatim>\<open>search_by_filters\<close>: the working list \<^verbatim>\<open>results\<close> is rebound once per active filter,
  in the order cuisine, location, rating, delivery speed. The string filters are guarded
  by truthiness, the numeric ones by \<^verbatim>\<open>is not None\<close>. Each argument is \<open>None\<close> (the
  default) or a value of the documented type: a string, a rating, a number of minutes.
  On such arguments no step of the body can raise, so the result is a plain list.
\<close>

definition search_by_filters ::
  "RestaurantDatabase \<Rightarrow> string option \<Rightarrow> string option \<Rightarrow> real option \<Rightarrow> int option
     \<Rightarrow> restaurant list" where
  "search_by_filters db cuisine_type location' rating' delivery_speed' =
    (let results = get_restaurants db;
         results = (if truthy_str cuisine_type
                    then (case cuisine_type of None \<Rightarrow> results
                          | Some c \<Rightarrow> [restaurant \<leftarrow> results. cuisine_matches c restaurant])
                    else results);
         results = (if truthy_str location'
                    then (case location' of None \<Rightarrow> results
                          | Some l \<Rightarrow> [restaurant \<leftarrow> results. location_matches l restaurant])
                    else results);
         results = (case rating' of None \<Rightarrow> results
                    | Some z \<Rightarrow> [r \<leftarrow> results. rating_at_least z r]);
         results = (case delivery_speed' of None \<Rightarrow> results
                    | Some w \<Rightarrow> [r \<leftarrow> results. delivery_within w r])
     in results)"

section \<open>\<^verbatim>\<open>RestaurantSearch\<close>: the facade\<close>

text \<open>
  \<^verbatim>\<open>search_restaurants\<close> calls
  \<^verbatim>\<open>self.browsing.search_by_filters(cuisine_type=cuisine, location=location, min_rating=rating)\<close>.
  Python binds keyword arguments by name against the parameter list of the callee
  and raises \<^verbatim>\<open>TypeError\<close> (unexpected keyword argument) before the body runs when a
  keyword names no parameter. The error carries the offending keyword.
\<close>

datatype error = TypeError string

definition search_by_filters_params :: "string list" where
  "search_by_filters_params = [''cuisine_type'', ''location'', ''rating'', ''delivery_speed'']"

fun unexpected_keyword :: "string list \<Rightarrow> string list \<Rightarrow> string option" where
  "unexpected_keyword params [] = None"
| "unexpected_keyword params (k # ks) =
     (if k \<in> set params then unexpected_keyword params ks else Some k)"

text \<open>
  Were every keyword accepted, the parameters \<^verbatim>\<open>rating\<close> and \<^verbatim>\<open>delivery_speed\<close>, which
  the call does not name, would keep their default \<open>None\<close>.
\<close>

definition search_restaurants ::
  "RestaurantDatabase \<Rightarrow> string option \<Rightarrow> string option \<Rightarrow> real option
     \<Rightarrow> error + restaurant list" where
  "search_restaurants db cuisine' location' rating' =
     (case unexpected_keyword search_by_filters_params
             [''cuisine_type'', ''location'', ''min_rating''] of
        Some k \<Rightarrow> Inl (TypeError k)
      | None \<Rightarrow> Inr (search_by_filters db cuisine' location' None None))"

section \<open>What the specification calls equal case-insensitively\<close>

text \<open>
  Stated without reference to \<open>lower\<close>: two strings are equal ignoring case when they
  have the same length and, position by position, the characters are equal or are the
  upper-case and lower-case form of one letter. The upper-case letters below 256 are A
  to Z and the Latin-1 capitals (codes 192 to 214 and 216 to 222); the lower-case form of
  each lies 32 above it. Case is compared one character with one character: the sharp s
  is not taken to equal a double s.
\<close>

definition is_upper :: "char \<Rightarrow> bool" where
  "is_upper c =
     ((65 \<le> (of_char c :: nat) \<and> (of_char c :: nat) \<le> 90) \<or>
      (192 \<le> (of_char c :: nat) \<and> (of_char c :: nat) \<le> 214) \<or>
      (216 \<le> (of_char c :: nat) \<and> (of_char c :: nat) \<le> 222))"

definition same_letter :: "char \<Rightarrow> char \<Rightarrow> bool" where
  "same_letter c d =
     (c = d \<or> (is_upper c \<and> (of_char d :: nat) = of_char c + 32)
            \<or> (is_upper d \<and> (of_char c :: nat) = of_char d + 32))"

definition equals_ignoring_case :: "string \<Rightarrow> string \<Rightarrow> bool" where
  "equals_ignoring_case a b = list_all2 same_letter a b"

section \<open>The searches on a store of list objects\<close>

text \<open>
  Python lists are objects: \<^verbatim>\<open>get_restaurants\<close> hands out a reference to the very list the
  database holds, and \<^verbatim>\<open>results\<close> in \<^verbatim>\<open>search_by_filters\<close> starts as an alias of it. Each
  list comprehension builds a new list object and rebinds \<^verbatim>\<open>results\<close>; nothing is
  written through a reference. The store maps references to list objects; \<open>next_ref\<close> is
  the next unused reference. The dicts inside the lists are never written either, so a
  list object is modelled by the list of its records.
\<close>

type_synonym ref = nat

record store =
  objs :: "ref \<rightharpoonup> restaurant list"
  next_ref :: ref

record RestaurantDatabase_obj =
  restaurants_ref :: ref

definition alloc :: "restaurant list \<Rightarrow> store \<Rightarrow> ref \<times> store" where
  "alloc xs s =
     (next_ref s, s\<lparr>objs := (objs s)(next_ref s \<mapsto> xs), next_ref := Suc (next_ref s)\<rparr>)"

text \<open>\<^verbatim>\<open>[r for r in results if P(r)]\<close>: read the list behind the reference, allocate the result.\<close>

definition list_comprehension ::
  "(restaurant \<Rightarrow> bool) \<Rightarrow> ref \<Rightarrow> store \<Rightarrow> (ref \<times> store) option" where
  "list_comprehension P a s =
     (case objs s a of None \<Rightarrow> None | Some xs \<Rightarrow> Some (alloc (filter P xs) s))"

definition RestaurantDatabase_init_st :: "store \<Rightarrow> RestaurantDatabase_obj \<times> store" where
  "RestaurantDatabase_init_st s =
     (case alloc (restaurants RestaurantDatabase_init) s of
        (a, s') \<Rightarrow> (\<lparr>restaurants_ref = a\<rparr>, s'))"

definition get_restaurants_st :: "RestaurantDatabase_obj \<Rightarrow> ref" where
  "get_restaurants_st db = restaurants_ref db"

definition search_by_cuisine_st ::
  "RestaurantDatabase_obj \<Rightarrow> string \<Rightarrow> store \<Rightarrow> (ref \<times> store) option" where
  "search_by_cuisine_st db cuisine_type s =
     list_comprehension (cuisine_matches cuisine_type) (get_restaurants_st db) s"

definition search_by_location_st ::
  "RestaurantDatabase_obj \<Rightarrow> string \<Rightarrow> store \<Rightarrow> (ref \<times> store) option" where
  "search_by_location_st db location' s =
     list_comprehension (location_matches location') (get_restaurants_st db) s"

definition search_by_rating_st ::
  "RestaurantDatabase_obj \<Rightarrow> real \<Rightarrow> store \<Rightarrow> (ref \<times> store) option" where
  "search_by_rating_st db min_rating s =
     list_comprehension (rating_at_least min_rating) (get_restaurants_st db) s"

definition search_by_filters_st ::
  "RestaurantDatabase_obj \<Rightarrow> string option \<Rightarrow> string option \<Rightarrow> real option \<Rightarrow> int option
     \<Rightarrow> store \<Rightarrow> (ref \<times> store) option" where
  "search_by_filters_st db cuisine_type location' rating' delivery_speed' s =
     do {
       (results, s) \<leftarrow> Some (get_restaurants_st db, s);
       (results, s) \<leftarrow>
         (if truthy_str cuisine_type
          then (case cuisine_type of None \<Rightarrow> Some (results, s)
                | Some c \<Rightarrow> list_comprehension (cuisine_matches c) results s)
          else Some (results, s));
       (results, s) \<leftarrow>
         (if truthy_str location'
          then (case location' of None \<Rightarrow> Some (results, s)
                | Some l \<Rightarrow> list_comprehension (location_matches l) results s)
          else Some (results, s));
       (results, s) \<leftarrow>
         (case rating' of None \<Rightarrow> Some (results, s)
          | Some z \<Rightarrow> list_comprehension (rating_at_least z) results s);
       (results, s) \<leftarrow>
         (case delivery_speed' of None \<Rightarrow> Some (results, s)
          | Some w \<Rightarrow> list_comprehension (delivery_within w) results s);
       Some (results, s)
     }"

definition search_restaurants_st ::
  "RestaurantDatabase_obj \<Rightarrow> string option \<Rightarrow> string option \<Rightarrow> real option
     \<Rightarrow> store \<Rightarrow> ((error + ref) \<times> store) option" where
  "search_restaurants_st db cuisine' location' rating' s =
     (case unexpected_keyword search_by_filters_params
             [''cuisine_type'', ''location'', ''min_rating''] of
        Some k \<Rightarrow> Some (Inl (TypeError k), s)
      | None \<Rightarrow>
          map_option (\<lambda>(results, s'). (Inr results, s'))
            (search_by_filters_st db cuisine' location' None None s))"

text \<open>The database as a value, read through its reference.\<close>

definition db_value :: "store \<Rightarrow> RestaurantDatabase_obj \<Rightarrow> RestaurantDatabase option" where
  "db_value s db = map_option (\<lambda>xs. \<lparr>restaurants = xs\<rparr>) (objs s (restaurants_ref db))"

text \<open>
  Every object of \<open>s\<close> is still present and unchanged in \<open>s'\<close>: the frame of an operation
  that only allocates.
\<close>

definition unchanged_below :: "store \<Rightarrow> store \<Rightarrow> bool" where
  "unchanged_below s s' =
     (next_ref s \<le> next_ref s' \<and> (\<forall>a<next_ref s. objs s' a = objs s a))"

section \<open>Facts about the primitives\<close>

lemma of_char_lower_char:
  "(of_char (lower_char c) :: nat) = (if is_upper c then of_char c + 32 else of_char c)"
  by (simp add: lower_char_def is_upper_def Let_def)

lemma lower_char_eq_iff: "lower_char c = lower_char d \<longleftrightarrow> same_letter c d"
proof -
  have "lower_char c = lower_char d \<longleftrightarrow>
        (of_char (lower_char c) :: nat) = of_char (lower_char d)"
    by simp
  also have "\<dots> \<longleftrightarrow> same_letter c d"
    unfolding of_char_lower_char same_letter_def
    by (auto simp: is_upper_def)
  finally show ?thesis .
qed

lemma lower_eq_iff: "lower a = lower b \<longleftrightarrow> equals_ignoring_case a b"
proof -
  have "(map lower_char a = map lower_char b) =
        list_all2 (=) (map lower_char a) (map lower_char b)"
    by (simp add: list.rel_eq)
  also have "\<dots> = list_all2 (\<lambda>c d. lower_char c = lower_char d) a b"
    by (simp add: list.rel_map)
  also have "\<dots> = list_all2 same_letter a b"
    by (simp add: lower_char_eq_iff)
  finally show ?thesis
    by (simp add: lower_def equals_ignoring_case_def)
qed


lemma location_matches_iff: "location_matches q r \<longleftrightarrow> equals_ignoring_case (location r) q"
  by (simp add: location_matches_def lower_eq_iff)

lemma delivery_within_iff:
  "delivery_within w r \<longleftrightarrow> (\<exists>d. delivery_speed r = Some d \<and> d \<noteq> 0 \<and> d \<le> w)"
  by (cases "delivery_speed r") (simp_all add: delivery_within_def)

text \<open>
  The filter engine is one pass over the stored list: a record survives when it passes
  every active filter.
\<close>

lemma search_by_filters_filter:
  "search_by_filters db c l z w =
     [r \<leftarrow> restaurants db.
        (case c of None \<Rightarrow> True | Some q \<Rightarrow> q = [] \<or> cuisine_matches q r) \<and>
        (case l of None \<Rightarrow> True | Some q \<Rightarrow> q = [] \<or> location_matches q r) \<and>
        (case z of None \<Rightarrow> True | Some m \<Rightarrow> rating_at_least m r) \<and>
        (case w of None \<Rightarrow> True | Some m \<Rightarrow> delivery_within m r)]"
  by (cases c; cases l; cases z; cases w)
     (auto simp: search_by_filters_def get_restaurants_def Let_def conj_commute intro: filter_cong)

section \<open>Facts about the store\<close>

lemma unchanged_below_refl: "unchanged_below s s"
  by (simp add: unchanged_below_def)

lemma unchanged_below_trans:
  "unchanged_below s s' \<Longrightarrow> unchanged_below s' s'' \<Longrightarrow> unchanged_below s s''"
  by (auto simp: unchanged_below_def)

lemma list_comprehension_step:
  assumes "a < next_ref s" and "objs s a = Some ys"
  shows "\<exists>a' s'. list_comprehension P a s = Some (a', s') \<and> a' < next_ref s' \<and>
           objs s' a' = Some (filter P ys) \<and> unchanged_below s s'"
  using assms by (simp add: list_comprehension_def alloc_def unchanged_below_def)

lemma truthy_guard_step:
  assumes "a < next_ref s" and "objs s a = Some ys"
  shows "\<exists>a' s'.
           (if truthy_str c
            then (case c of None \<Rightarrow> Some (a, s) | Some q \<Rightarrow> list_comprehension (P q) a s)
            else Some (a, s)) = Some (a', s') \<and>
           a' < next_ref s' \<and>
           objs s' a' =
             Some (if truthy_str c
                   then (case c of None \<Rightarrow> ys | Some q \<Rightarrow> filter (P q) ys) else ys) \<and>
           unchanged_below s s'"
proof (cases c)
  case None
  with assms show ?thesis by (simp add: unchanged_below_refl)
next
  case (Some q)
  show ?thesis
  proof (cases "q = []")
    case True
    with Some assms show ?thesis by (simp add: unchanged_below_refl)
  next
    case False
    with Some list_comprehension_step [OF assms, of "P q"] show ?thesis by simp
  qed
qed

lemma option_guard_step:
  assumes "a < next_ref s" and "objs s a = Some ys"
  shows "\<exists>a' s'.
           (case z of None \<Rightarrow> Some (a, s) | Some m \<Rightarrow> list_comprehension (P m) a s)
             = Some (a', s') \<and>
           a' < next_ref s' \<and>
           objs s' a' = Some (case z of None \<Rightarrow> ys | Some m \<Rightarrow> filter (P m) ys) \<and>
           unchanged_below s s'"
proof (cases z)
  case None
  with assms show ?thesis by (simp add: unchanged_below_refl)
next
  case (Some m)
  with list_comprehension_step [OF assms, of "P m"] show ?thesis by simp
qed


lemma search_by_filters_st_correct:
  assumes a0: "restaurants_ref db < next_ref s" and o0: "objs s (restaurants_ref db) = Some xs"
  shows "\<exists>a s'. search_by_filters_st db c l z w s = Some (a, s') \<and> a < next_ref s' \<and>
           objs s' a = Some (search_by_filters \<lparr>restaurants = xs\<rparr> c l z w) \<and>
           unchanged_below s s'"
proof -
  define ys1 where "ys1 = (if truthy_str c
      then (case c of None \<Rightarrow> xs | Some q \<Rightarrow> filter (cuisine_matches q) xs) else xs)"
  define ys2 where "ys2 = (if truthy_str l
      then (case l of None \<Rightarrow> ys1 | Some q \<Rightarrow> filter (location_matches q) ys1) else ys1)"
  define ys3 where "ys3 = (case z of None \<Rightarrow> ys2 | Some m \<Rightarrow> filter (rating_at_least m) ys2)"
  define ys4 where "ys4 = (case w of None \<Rightarrow> ys3 | Some m \<Rightarrow> filter (delivery_within m) ys3)"
  obtain a1 s1 where s1:
    "(if truthy_str c
      then (case c of None \<Rightarrow> Some (restaurants_ref db, s)
            | Some q \<Rightarrow> list_comprehension (cuisine_matches q) (restaurants_ref db) s)
      else Some (restaurants_ref db, s)) = Some (a1, s1)"
    and a1: "a1 < next_ref s1" and o1: "objs s1 a1 = Some ys1" and u1: "unchanged_below s s1"
    using truthy_guard_step [OF a0 o0, where c = c and P = cuisine_matches] unfolding ys1_def by blast
  obtain a2 s2 where s2:
    "(if truthy_str l
      then (case l of None \<Rightarrow> Some (a1, s1)
            | Some q \<Rightarrow> list_comprehension (location_matches q) a1 s1)
      else Some (a1, s1)) = Some (a2, s2)"
    and a2: "a2 < next_ref s2" and o2: "objs s2 a2 = Some ys2" and u2: "unchanged_below s1 s2"
    using truthy_guard_step [OF a1 o1, where c = l and P = location_matches] unfolding ys2_def by blast
  obtain a3 s3 where s3:
    "(case z of None \<Rightarrow> Some (a2, s2)
      | Some m \<Rightarrow> list_comprehension (rating_at_least m) a2 s2) = Some (a3, s3)"
    and a3: "a3 < next_ref s3" and o3: "objs s3 a3 = Some ys3" and u3: "unchanged_below s2 s3"
    using option_guard_step [OF a2 o2, where z = z and P = rating_at_least] unfolding ys3_def by blast
  obtain a4 s4 where s4:
    "(case w of None \<Rightarrow> Some (a3, s3)
      | Some m \<Rightarrow> list_comprehension (delivery_within m) a3 s3) = Some (a4, s4)"
    and a4: "a4 < next_ref s4" and o4: "objs s4 a4 = Some ys4" and u4: "unchanged_below s3 s4"
    using option_guard_step [OF a3 o3, where z = w and P = delivery_within] unfolding ys4_def by blast
  have run: "search_by_filters_st db c l z w s = Some (a4, s4)"
    unfolding search_by_filters_st_def get_restaurants_st_def
    by (simp only: s1 s2 s3 s4 Option.bind.bind_lunit prod.case)
  have val: "search_by_filters \<lparr>restaurants = xs\<rparr> c l z w = ys4"
    unfolding ys4_def ys3_def ys2_def ys1_def
    by (simp add: search_by_filters_def get_restaurants_def Let_def)
  have "unchanged_below s s4"
    using u1 u2 u3 u4 by (blast intro: unchanged_below_trans)
  with run val a4 o4 show ?thesis by simp
qed

lemma single_search_st:
  assumes "restaurants_ref db < next_ref s" and "objs s (restaurants_ref db) = Some xs"
  shows "\<exists>a s'. list_comprehension P (get_restaurants_st db) s = Some (a, s') \<and>
           objs s' a = Some (filter P xs) \<and> unchanged_below s s'"
  using list_comprehension_step [OF assms, of P] by (auto simp: get_restaurants_st_def)

lemma search_restaurants_st_raises:
  "search_restaurants_st db c l z s = Some (Inl (TypeError ''min_rating''), s)"
  by (simp add: search_restaurants_st_def search_by_filters_params_def)

lemma search_by_filters_st_no_filters:
  "search_by_filters_st db None None None None s = Some (restaurants_ref db, s)"
  by (simp add: search_by_filters_st_def get_restaurants_st_def)

lemma db_value_unchanged:
  assumes "restaurants_ref db < next_ref s" and "unchanged_below s s'"
  shows "db_value s' db = db_value s db"
  using assms by (simp add: db_value_def unchanged_below_def)

section \<open>Evaluating on the seed data\<close>

lemmas seed_eval =
  RestaurantDatabase_init_def search_by_filters_def search_by_cuisine_def
  search_by_location_def search_by_rating_def
  get_restaurants_def cuisine_matches_def location_matches_def rating_at_least_def
  delivery_within_def lower_def lower_char_def char_of_def bit_Suc_0_iff

lemma search_restaurants_raises:
  "search_restaurants db c l z = Inl (TypeError ''min_rating'')"
  by (simp add: search_restaurants_def search_by_filters_params_def)

text \<open>
  Beyond ASCII: the accented capital E (code 201) is folded to the small one (233), so
  the cuisine CAF+201 is found by the query caf+233, as in Python. The multiplication
  sign, the sharp s, the micro sign and the y with diaeresis stay as they are.
\<close>

lemma lower_latin1_example:
  "lower (''CAF'' @ [CHR 0xC9]) = ''caf'' @ [CHR 0xE9]
   \<and> lower (''caf'' @ [CHR 0xE9]) = ''caf'' @ [CHR 0xE9]
   \<and> lower [CHR 0xD7, CHR 0xDF, CHR 0xB5, CHR 0xFF] = [CHR 0xD7, CHR 0xDF, CHR 0xB5, CHR 0xFF]"
  by (simp add: lower_def lower_char_def char_of_def bit_Suc_0_iff)

lemma search_by_cuisine_latin1_example:
  "search_by_cuisine
     \<lparr>restaurants = [\<lparr>name = ''Le Coin'', cuisine = ''CAF'' @ [CHR 0xC9],
                      location = ''Downtown'', rating = 4.1, delivery_speed = Some 15\<rparr>]\<rparr>
     (''caf'' @ [CHR 0xE9])
   = [\<lparr>name = ''Le Coin'', cuisine = ''CAF'' @ [CHR 0xC9],
       location = ''Downtown'', rating = 4.1, delivery_speed = Some 15\<rparr>]"
  by (simp add: search_by_cuisine_def get_restaurants_def cuisine_matches_def lower_def
        lower_char_def char_of_def bit_Suc_0_iff)

section \<open>The unit tests of the source\<close>

text \<open>
  \<^verbatim>\<open>TestRestaurantBrowsing\<close> runs four searches on the seed database; each assertion holds
  of the model.
\<close>

lemma test_search_by_cuisine:
  "length (search_by_cuisine RestaurantDatabase_init ''Italian'') = 2
   \<and> list_all (\<lambda>restaurant. cuisine restaurant = ''Italian'')
        (search_by_cuisine RestaurantDatabase_init ''Italian'')"
  by (simp add: seed_eval)

lemma test_search_by_location:
  "length (search_by_location RestaurantDatabase_init ''Downtown'') = 2
   \<and> list_all (\<lambda>restaurant. location restaurant = ''Downtown'')
        (search_by_location RestaurantDatabase_init ''Downtown'')"
  by (simp add: seed_eval)

lemma test_search_by_rating:
  "length (search_by_rating RestaurantDatabase_init 4.0) = 7
   \<and> list_all (\<lambda>restaurant. rating restaurant \<ge> 4.0)
        (search_by_rating RestaurantDatabase_init 4.0)"
  by (simp add: seed_eval)

lemma test_search_by_filters:
  "length (search_by_filters RestaurantDatabase_init
             (Some ''Italian'') (Some ''Downtown'') (Some 4.0) None) = 1
   \<and> map name (search_by_filters RestaurantDatabase_init
             (Some ''Italian'') (Some ''Downtown'') (Some 4.0) None) = [''Italian Bistro'']"
  by (simp add: seed_eval)

section \<open>The claims\<close>

text \<open>
  Claim C1: the facade \<^verbatim>\<open>RestaurantSearch.search_restaurants\<close> is said to return what
  \<^verbatim>\<open>search_by_filters\<close> returns for the same cuisine, location and rating, and never to
  fail. The facade passes the rating under the keyword \<^verbatim>\<open>min_rating\<close>, which
  \<^verbatim>\<open>search_by_filters\<close> does not have: on the seed database with cuisine Italian,
  location Downtown and rating 4.0 the facade raises \<^verbatim>\<open>TypeError\<close>, while the filter
  engine returns a list.
\<close>

theorem facade_raises_where_engine_answers:
  "search_restaurants RestaurantDatabase_init (Some ''Italian'') (Some ''Downtown'') (Some 4.0)
     = Inl (TypeError ''min_rating'')
   \<and> search_restaurants RestaurantDatabase_init (Some ''Italian'') (Some ''Downtown'') (Some 4.0)
     \<noteq> Inr (search_by_filters RestaurantDatabase_init
              (Some ''Italian'') (Some ''Downtown'') (Some 4.0) None)"
  by (simp add: search_restaurants_raises)

text \<open>
  Claim C2, as the code has it: with only a maximum delivery speed \<open>w\<close> supplied, and
  looking at the records whose \<^verbatim>\<open>delivery_speed\<close> is not zero, \<^verbatim>\<open>search_by_filters\<close> returns
  exactly the stored records that have a \<^verbatim>\<open>delivery_speed\<close> field with a value at most
  \<open>w\<close>, in the stored order. A record without the field is not returned. Nothing is
  said about a record whose \<^verbatim>\<open>delivery_speed\<close> is zero.
\<close>

theorem max_delivery_speed_only:
  "[r \<leftarrow> search_by_filters db None None None (Some w). delivery_speed r \<noteq> Some 0] =
   [r \<leftarrow> restaurants db.
      case delivery_speed r of None \<Rightarrow> False | Some d \<Rightarrow> d \<noteq> 0 \<and> d \<le> w]"
  by (auto simp: search_by_filters_filter delivery_within_iff intro!: filter_cong
           split: option.splits)

text \<open>
  Claim C2 as stated fails: a record without a \<^verbatim>\<open>delivery_speed\<close> field is left out of
  the result, whatever the ceiling. Here the ceiling is 30; Corner Cafe has no delivery
  speed and is dropped, Taco Stand (20 minutes) is kept.
\<close>

theorem absent_delivery_speed_counterexample:
  "search_by_filters
     \<lparr>restaurants = [
        \<lparr>name = ''Corner Cafe'', cuisine = ''Cafe'', location = ''Downtown'',
         rating = 4.1, delivery_speed = None\<rparr>,
        \<lparr>name = ''Taco Stand'', cuisine = ''Mexican'', location = ''Chicago'',
         rating = 3.9, delivery_speed = Some 20\<rparr>]\<rparr>
     None None None (Some 30)
   = [\<lparr>name = ''Taco Stand'', cuisine = ''Mexican'', location = ''Chicago'',
       rating = 3.9, delivery_speed = Some 20\<rparr>]"
  by (simp add: search_by_filters_def get_restaurants_def delivery_within_def)

text \<open>
  Claim C3: with only a minimum rating \<open>z\<close> supplied, \<^verbatim>\<open>search_by_filters\<close> returns
  exactly the stored records whose rating is at least \<open>z\<close>, in the stored order, and so
  does \<^verbatim>\<open>search_by_rating\<close>.
\<close>

theorem rating_only:
  "search_by_filters db None None (Some z) None = [r \<leftarrow> restaurants db. rating r \<ge> z]
   \<and> search_by_rating db z = [r \<leftarrow> restaurants db. rating r \<ge> z]"
  by (simp add: search_by_filters_filter search_by_rating_def get_restaurants_def
        rating_at_least_def)



text \<open>
  Claim C5: with no predicate supplied, \<^verbatim>\<open>search_by_filters\<close> returns the stored list
  itself: all records, unchanged, in the stored order.
\<close>

theorem no_filters_identity:
  "search_by_filters db None None None None = restaurants db"
  by (simp add: search_by_filters_filter)

text \<open>
  Claim C6: whatever filters are supplied, every record returned by
  \<^verbatim>\<open>search_by_filters\<close> is a record of the database.
\<close>

theorem result_subset_of_dataset:
  "set (search_by_filters db c l z w) \<subseteq> set (restaurants db)"
  by (simp add: search_by_filters_filter)

text \<open>
  Claim C7, as the code has it: when an active criterion matches no record of the
  collection, \<^verbatim>\<open>search_by_filters\<close> returns the empty list, whatever the other
  arguments are. A cuisine or location criterion is active when the string is not
  empty, and a record matches it when the comparison of the code holds (the lower-case
  forms of field and query are equal); a rating or delivery-speed criterion is active
  whenever it is given. The result is a list in every case: the function has no \<open>None\<close>
  result and raises nothing on arguments of these types.
\<close>

theorem no_match_gives_empty_list:
  assumes "(\<exists>q. c = Some q \<and> q \<noteq> [] \<and>
              (\<forall>r \<in> set (restaurants db). \<not> cuisine_matches q r))
         \<or> (\<exists>q. l = Some q \<and> q \<noteq> [] \<and>
              (\<forall>r \<in> set (restaurants db). \<not> location_matches q r))
         \<or> (\<exists>m. z = Some m \<and> (\<forall>r \<in> set (restaurants db). \<not> rating r \<ge> m))
         \<or> (\<exists>m. w = Some m \<and>
              (\<forall>r \<in> set (restaurants db). \<forall>d. delivery_speed r = Some d \<longrightarrow> \<not> d \<le> m))"
  shows "search_by_filters db c l z w = []"
  using assms
  unfolding search_by_filters_filter filter_empty_conv
  by (auto simp: rating_at_least_def delivery_within_iff)

theorem no_match_gives_empty_list_witness:
  "search_by_filters RestaurantDatabase_init (Some ''Thai'') None None None = []"
  using no_match_gives_empty_list [of "Some ''Thai''" RestaurantDatabase_init None None None]
  by (simp add: RestaurantDatabase_init_def cuisine_matches_def lower_def lower_char_def
        char_of_def bit_Suc_0_iff)

text \<open>
  Claim C7 as stated fails for the empty string: no seed record has the cuisine \<^verbatim>\<open>""\<close>
  (the single-criterion search finds none), yet \<^verbatim>\<open>search_by_filters\<close> with
  \<^verbatim>\<open>cuisine_type=""\<close> returns all eight seed records.
\<close>

theorem empty_string_criterion_counterexample:
  "search_by_cuisine RestaurantDatabase_init '''' = []
   \<and> length (search_by_filters RestaurantDatabase_init (Some '''') None None None) = 8"
  by (simp add: seed_eval)

text \<open>
  Claim C8: on the seed data, cuisine Italian, location Downtown and rating 4.0 select
  exactly one record, Italian Bistro.
\<close>

theorem seed_italian_downtown:
  "search_by_filters RestaurantDatabase_init (Some ''Italian'') (Some ''Downtown'') (Some 4.0) None
     = [\<lparr>name = ''Italian Bistro'', cuisine = ''Italian'', location = ''Downtown'',
         rating = 4.0, delivery_speed = Some 30\<rparr>]"
  by (simp add: seed_eval)

text \<open>
  Claim C9: no search writes to the database. Started in a store where the database's
  list is allocated, each of the five operations returns, every object that existed
  before the call is unchanged afterwards, and the database read through its reference
  has the same records in the same order. The facade raises before anything is
  allocated; the other four allocate new lists only.
\<close>

theorem searches_leave_database_unchanged:
  assumes alloc: "restaurants_ref db < next_ref s"
    and val: "db_value s db = Some d"
  shows "(\<exists>a s'. search_by_cuisine_st db q s = Some (a, s') \<and>
            unchanged_below s s' \<and> db_value s' db = Some d)
       \<and> (\<exists>a s'. search_by_location_st db q s = Some (a, s') \<and>
            unchanged_below s s' \<and> db_value s' db = Some d)
       \<and> (\<exists>a s'. search_by_rating_st db m s = Some (a, s') \<and>
            unchanged_below s s' \<and> db_value s' db = Some d)
       \<and> (\<exists>a s'. search_by_filters_st db c l z w s = Some (a, s') \<and>
            unchanged_below s s' \<and> db_value s' db = Some d)
       \<and> (\<exists>e s'. search_restaurants_st db c l z s = Some (e, s') \<and>
            unchanged_below s s' \<and> db_value s' db = Some d)"
proof -
  from val obtain xs where obj: "objs s (restaurants_ref db) = Some xs"
    by (auto simp: db_value_def)
  have keep: "db_value s' db = Some d" if "unchanged_below s s'" for s'
    using db_value_unchanged [OF alloc that] val by simp
  have "\<exists>a s'. search_by_cuisine_st db q s = Some (a, s') \<and>
          unchanged_below s s' \<and> db_value s' db = Some d"
    unfolding search_by_cuisine_st_def
    using single_search_st [OF alloc obj, of "cuisine_matches q"] keep by blast
  moreover have "\<exists>a s'. search_by_location_st db q s = Some (a, s') \<and>
          unchanged_below s s' \<and> db_value s' db = Some d"
    unfolding search_by_location_st_def
    using single_search_st [OF alloc obj, of "location_matches q"] keep by blast
  moreover have "\<exists>a s'. search_by_rating_st db m s = Some (a, s') \<and>
          unchanged_below s s' \<and> db_value s' db = Some d"
    unfolding search_by_rating_st_def
    using single_search_st [OF alloc obj, of "rating_at_least m"] keep by blast
  moreover have "\<exists>a s'. search_by_filters_st db c l z w s = Some (a, s') \<and>
          unchanged_below s s' \<and> db_value s' db = Some d"
    using search_by_filters_st_correct [OF alloc obj, of c l z w] keep by blast
  moreover have "\<exists>e s'. search_restaurants_st db c l z s = Some (e, s') \<and>
          unchanged_below s s' \<and> db_value s' db = Some d"
    using search_restaurants_st_raises [of db c l z s] keep [OF unchanged_below_refl]
    by (simp add: unchanged_below_refl)
  ultimately show ?thesis by blast
qed

theorem searches_leave_database_unchanged_witness:
  "\<exists>a s'. search_by_filters_st \<lparr>restaurants_ref = 0\<rparr> (Some ''Italian'') None (Some 4.2) None
              (snd (RestaurantDatabase_init_st \<lparr>objs = Map.empty, next_ref = 0\<rparr>)) = Some (a, s')
         \<and> db_value s' \<lparr>restaurants_ref = 0\<rparr> = Some RestaurantDatabase_init"
proof -
  let ?s = "snd (RestaurantDatabase_init_st \<lparr>objs = Map.empty, next_ref = 0\<rparr>)"
  let ?db = "\<lparr>restaurants_ref = 0\<rparr>"
  have h1: "restaurants_ref ?db < next_ref ?s"
    by (simp add: RestaurantDatabase_init_st_def alloc_def)
  have h2: "db_value ?s ?db = Some RestaurantDatabase_init"
    by (simp add: RestaurantDatabase_init_st_def alloc_def db_value_def
          RestaurantDatabase_init_def)
  from searches_leave_database_unchanged
         [OF h1 h2, where q = "''Thai''" and m = 4 and c = "Some ''Italian''" and l = None
            and z = "Some 4.2" and w = None]
  show ?thesis by blast
qed

text \<open>
  Claim C10: in \<^verbatim>\<open>search_by_filters\<close> the empty string as cuisine or as location
  behaves exactly like leaving that argument unset, whatever the other arguments are.
\<close>

theorem empty_string_is_unset:
  "search_by_filters db (Some '''') l z w = search_by_filters db None l z w
   \<and> search_by_filters db c (Some '''') z w = search_by_filters db c None z w"
  by (simp add: search_by_filters_filter)

end
